theory Spec2Isabelle
  imports Complex_Main
begin

section \<open>JavaScript numbers\<close>

text \<open>
  The backend keeps four MongoDB collections (products, inventories, carts, orders) and
  serves them through Express handlers. Each handler is embedded as a function from the
  store and the request to a response and the store afterwards; an error response is the
  \<open>Inl\<close> of the result.

  A Number is an IEEE 754 double: a finite value, given by the rational it denotes, an
  infinity, or NaN. The sign of zero is not kept; no handler divides. Arithmetic rounds
  the exact result to the nearest double, ties to even.
\<close>

datatype number = Fin rat | PosInfinity | NegInfinity | NaN

function bit_length :: "int \<Rightarrow> int" where
  "bit_length n = (if n \<le> 0 then 0 else 1 + bit_length (n div 2))"
  by pat_completeness auto
termination
  by (relation "measure nat") auto

declare bit_length.simps [simp del]

definition pow2 :: "int \<Rightarrow> rat" where
  "pow2 e = (if 0 \<le> e then 2 ^ nat e else 1 / 2 ^ nat (- e))"

text \<open>For a positive \<open>a\<close>, the exponent \<open>e\<close> with \<open>2 ^ e \<le> a < 2 ^ (e + 1)\<close>.\<close>

definition floor_log2 :: "rat \<Rightarrow> int" where
  "floor_log2 a =
     (if 1 \<le> a then bit_length \<lfloor>a\<rfloor> - 1
      else (let k = bit_length \<lfloor>1 / a\<rfloor>
            in if a = pow2 (1 - k) then 1 - k else - k))"

definition round_half_even :: "rat \<Rightarrow> int" where
  "round_half_even x =
     (let f = \<lfloor>x\<rfloor>; d = x - of_int f
      in if d < 1 / 2 then f else if 1 / 2 < d then f + 1 else if even f then f else f + 1)"

text \<open>
  The double nearest to a rational: 53 bits of mantissa, the exponent not below -1022
  (subnormal numbers share the last quantum), and an infinity when the rounded mantissa
  leaves the largest exponent, 1023.
\<close>

definition to_double :: "rat \<Rightarrow> number" where
  "to_double x =
     (if x = 0 then Fin 0
      else (let a = \<bar>x\<bar>;
                e = max (floor_log2 a) (- 1022);
                quantum = pow2 (e - 52);
                m = round_half_even (a / quantum);
                r = of_int m * quantum
            in if 1024 \<le> e \<or> (e = 1023 \<and> m = 9007199254740992)
               then (if 0 < x then PosInfinity else NegInfinity)
               else Fin (if 0 < x then r else - r)))"

text \<open>The operators \<^verbatim>\<open>*\<close>, \<^verbatim>\<open>+\<close>, \<^verbatim>\<open>-\<close>, \<^verbatim>\<open><\<close> and \<^verbatim>\<open>>=\<close> on Numbers.\<close>

fun js_mul :: "number \<Rightarrow> number \<Rightarrow> number" where
  "js_mul NaN _ = NaN"
| "js_mul _ NaN = NaN"
| "js_mul (Fin a) (Fin b) = to_double (a * b)"
| "js_mul (Fin a) PosInfinity = (if a = 0 then NaN else if 0 < a then PosInfinity else NegInfinity)"
| "js_mul (Fin a) NegInfinity = (if a = 0 then NaN else if 0 < a then NegInfinity else PosInfinity)"
| "js_mul PosInfinity (Fin b) = (if b = 0 then NaN else if 0 < b then PosInfinity else NegInfinity)"
| "js_mul NegInfinity (Fin b) = (if b = 0 then NaN else if 0 < b then NegInfinity else PosInfinity)"
| "js_mul PosInfinity PosInfinity = PosInfinity"
| "js_mul PosInfinity NegInfinity = NegInfinity"
| "js_mul NegInfinity PosInfinity = NegInfinity"
| "js_mul NegInfinity NegInfinity = PosInfinity"

fun js_add :: "number \<Rightarrow> number \<Rightarrow> number" where
  "js_add NaN _ = NaN"
| "js_add _ NaN = NaN"
| "js_add (Fin a) (Fin b) = to_double (a + b)"
| "js_add (Fin a) PosInfinity = PosInfinity"
| "js_add (Fin a) NegInfinity = NegInfinity"
| "js_add PosInfinity (Fin b) = PosInfinity"
| "js_add NegInfinity (Fin b) = NegInfinity"
| "js_add PosInfinity PosInfinity = PosInfinity"
| "js_add PosInfinity NegInfinity = NaN"
| "js_add NegInfinity PosInfinity = NaN"
| "js_add NegInfinity NegInfinity = NegInfinity"

fun js_neg :: "number \<Rightarrow> number" where
  "js_neg (Fin a) = Fin (- a)"
| "js_neg PosInfinity = NegInfinity"
| "js_neg NegInfinity = PosInfinity"
| "js_neg NaN = NaN"

definition js_sub :: "number \<Rightarrow> number \<Rightarrow> number" where
  "js_sub a b = js_add a (js_neg b)"

fun js_lt :: "number \<Rightarrow> number \<Rightarrow> bool" where
  "js_lt (Fin a) (Fin b) = (a < b)"
| "js_lt (Fin a) PosInfinity = True"
| "js_lt NegInfinity (Fin b) = True"
| "js_lt NegInfinity PosInfinity = True"
| "js_lt _ _ = False"

definition js_ge :: "number \<Rightarrow> number \<Rightarrow> bool" where
  "js_ge a b = (a \<noteq> NaN \<and> b \<noteq> NaN \<and> \<not> js_lt a b)"

section \<open>Data model\<close>

text \<open>
  ObjectIds are natural numbers, handed out by a counter of the store. Timestamps are
  left out, and user ids are taken without surrounding white space, as the schemas trim
  them.
\<close>

type_synonym oid = nat

text \<open>An identifier as it arrives in a request: absent, not an ObjectId, or an ObjectId.\<close>

datatype id_param = Missing | Malformed | Oid oid

text \<open>\<^verbatim>\<open>mongoose.Types.ObjectId.isValid\<close>\<close>

fun isValid :: "id_param \<Rightarrow> bool" where
  "isValid (Oid _) = True"
| "isValid _ = False"

text \<open>The decoded token that the authentication middleware attaches as \<^verbatim>\<open>req.user\<close>.\<close>

record user =
  userId :: string
  role :: string

text \<open>
  Modelled from the spec: the Product model (models/products) is not among the sources.
  The spec's data model gives a product an identity, a name and a non-negative price;
  the other attributes are opaque to the handlers below.
\<close>

record product =
  p_id :: oid
  p_name :: string
  p_price :: number

definition productSchema :: "product \<Rightarrow> bool" where
  "productSchema p = js_ge (p_price p) (Fin 0)"

text \<open>inventorySchema: \<^verbatim>\<open>quantity: { type: Number, required: true, min: 0 }\<close>\<close>

record inventory =
  i_id :: oid
  i_productId :: oid
  i_quantity :: number

definition inventorySchema :: "inventory \<Rightarrow> bool" where
  "inventorySchema i = js_ge (i_quantity i) (Fin 0)"

text \<open>cartSchema: the \<^verbatim>\<open>min: 1\<close> of quantity is commented out in the source.\<close>

record cart =
  c_id :: oid
  c_userId :: string
  c_productId :: oid
  c_quantity :: number

text \<open>
  orderSchema: userId is required, quantity has \<^verbatim>\<open>min: 1\<close>, totalPrice \<^verbatim>\<open>min: 0\<close>,
  status the enum. A NaN does not cast to Number.
\<close>

definition statusEnum :: "string list" where
  "statusEnum = [''pending'', ''processing'', ''shipped'', ''delivered'', ''cancelled'']"

record order =
  o_id :: oid
  o_userId :: string
  o_productId :: oid
  o_quantity :: number
  o_totalPrice :: number
  o_status :: string

definition orderSchema :: "order \<Rightarrow> bool" where
  "orderSchema ord =
     (o_userId ord \<noteq> [] \<and> js_ge (o_quantity ord) (Fin 1) \<and> js_ge (o_totalPrice ord) (Fin 0) \<and>
      o_status ord \<in> set statusEnum)"

record store =
  products :: "product list"
  inventories :: "inventory list"
  carts :: "cart list"
  orders :: "order list"
  next_oid :: oid

datatype error =
    AuthenticationRequired
  | AccessDenied
  | InvalidId
  | FieldsRequired
  | QuantityRequired
  | QuantityTooSmall
  | QuantityNegative
  | ProductNotFound
  | InventoryNotFound
  | OrderNotFound
  | CartEmpty
  | InsufficientInventory string number number
  | InvalidStatus
  | ValidationError
  | DuplicateKey

section \<open>Values of a request body\<close>

text \<open>
  A field of the parsed JSON body: absent, null, a boolean, a number, a string, or an
  array or object. Of an array or object the handlers only use the string that
  \<^verbatim>\<open>ToPrimitive\<close> gives; the value carries it.
\<close>

datatype json = JAbsent | JNull | JBool bool | JNum number | JStr string | JComposite string

text \<open>
  The two conversions of the ECMAScript runtime between strings and Numbers,
  \<^verbatim>\<open>Number(s)\<close> and \<^verbatim>\<open>String(n)\<close>, are parameters of the handlers that use them.
\<close>

record runtime =
  StringToNumber :: "string \<Rightarrow> number"
  NumberToString :: "number \<Rightarrow> string"

text \<open>\<^verbatim>\<open>!v\<close> is \<open>\<not> truthy v\<close>.\<close>

fun truthy :: "json \<Rightarrow> bool" where
  "truthy JAbsent = False"
| "truthy JNull = False"
| "truthy (JBool b) = b"
| "truthy (JNum n) = (n \<noteq> Fin 0 \<and> n \<noteq> NaN)"
| "truthy (JStr s) = (s \<noteq> [])"
| "truthy (JComposite s) = True"

fun ToNumber :: "runtime \<Rightarrow> json \<Rightarrow> number" where
  "ToNumber rt JAbsent = NaN"
| "ToNumber rt JNull = Fin 0"
| "ToNumber rt (JBool b) = (if b then Fin 1 else Fin 0)"
| "ToNumber rt (JNum n) = n"
| "ToNumber rt (JStr s) = StringToNumber rt s"
| "ToNumber rt (JComposite s) = StringToNumber rt s"

text \<open>\<^verbatim>\<open>n += v\<close> for a Number \<open>n\<close>: a string operand makes it a concatenation.\<close>

fun plus_assign :: "runtime \<Rightarrow> number \<Rightarrow> json \<Rightarrow> json" where
  "plus_assign rt n (JStr s) = JStr (NumberToString rt n @ s)"
| "plus_assign rt n (JComposite s) = JStr (NumberToString rt n @ s)"
| "plus_assign rt n v = JNum (js_add n (ToNumber rt v))"

text \<open>
  The cast of mongoose to a required Number path: a value that does not cast, or casts
  to null, fails validation.
\<close>

fun castNumber :: "runtime \<Rightarrow> json \<Rightarrow> error + number" where
  "castNumber rt JAbsent = Inl ValidationError"
| "castNumber rt JNull = Inl ValidationError"
| "castNumber rt (JBool b) = Inr (if b then Fin 1 else Fin 0)"
| "castNumber rt (JNum n) = (if n = NaN then Inl ValidationError else Inr n)"
| "castNumber rt (JStr s) =
     (if s = [] \<or> StringToNumber rt s = NaN then Inl ValidationError
      else Inr (StringToNumber rt s))"
| "castNumber rt (JComposite s) = Inl ValidationError"

section \<open>Collection primitives\<close>

text \<open>\<^verbatim>\<open>findOneAndUpdate\<close>, \<^verbatim>\<open>save\<close>: the first matching document is rewritten.\<close>

fun update_first :: "('a \<Rightarrow> bool) \<Rightarrow> ('a \<Rightarrow> 'a) \<Rightarrow> 'a list \<Rightarrow> 'a list" where
  "update_first P f [] = []"
| "update_first P f (x # xs) = (if P x then f x # xs else x # update_first P f xs)"

text \<open>\<^verbatim>\<open>findOneAndDelete\<close>: the first matching document is removed.\<close>

fun delete_first :: "('a \<Rightarrow> bool) \<Rightarrow> 'a list \<Rightarrow> 'a list" where
  "delete_first P [] = []"
| "delete_first P (x # xs) = (if P x then xs else x # delete_first P xs)"

text \<open>\<^verbatim>\<open>deleteMany\<close>: every matching document is removed; the count is reported.\<close>

fun deleteMany :: "('a \<Rightarrow> bool) \<Rightarrow> 'a list \<Rightarrow> nat \<times> 'a list" where
  "deleteMany P [] = (0, [])"
| "deleteMany P (x # xs) =
     (case deleteMany P xs of (deletedCount, kept) \<Rightarrow>
        if P x then (Suc deletedCount, kept) else (deletedCount, x # kept))"

definition findProduct :: "store \<Rightarrow> oid \<Rightarrow> product option" where
  "findProduct st i = find (\<lambda>p. p_id p = i) (products st)"

type_synonym populated_cart = "cart \<times> product option"
type_synonym populated_order = "order \<times> product option"
type_synonym populated_inventory = "inventory \<times> product option"

text \<open>\<^verbatim>\<open>Cart.findById(id).populate('productId', ...)\<close>\<close>

definition findCartPopulated :: "store \<Rightarrow> oid \<Rightarrow> populated_cart option" where
  "findCartPopulated st i =
     map_option (\<lambda>c. (c, findProduct st (c_productId c))) (find (\<lambda>c. c_id c = i) (carts st))"

text \<open>\<^verbatim>\<open>Order.findById(id).populate('productId', ...)\<close>\<close>

definition findOrderPopulated :: "store \<Rightarrow> oid \<Rightarrow> populated_order option" where
  "findOrderPopulated st i =
     map_option (\<lambda>ord. (ord, findProduct st (o_productId ord)))
       (find (\<lambda>ord. o_id ord = i) (orders st))"

section \<open>Cart controller\<close>

text \<open>
  models/cart \<^verbatim>\<open>createCart\<close>: the schema requires the three fields and casts the
  quantity to a Number; a failure is thrown.
\<close>

definition createCart :: "runtime \<Rightarrow> store \<Rightarrow> string \<Rightarrow> oid \<Rightarrow> json \<Rightarrow> error + (cart \<times> store)" where
  "createCart rt st uid pid quantity =
     (case castNumber rt quantity of
        Inl e \<Rightarrow> Inl e
      | Inr q \<Rightarrow>
          (let c = \<lparr>c_id = next_oid st, c_userId = uid, c_productId = pid, c_quantity = q\<rparr>
           in Inr (c, st\<lparr>carts := carts st @ [c], next_oid := Suc (next_oid st)\<rparr>)))"

text \<open>
  \<^verbatim>\<open>addToCart\<close>: the quantity of the body is used as it arrives. For an existing line
  the result of \<^verbatim>\<open>+=\<close> is assigned to the Number path, which casts it, and saved.
\<close>

definition addToCart ::
  "runtime \<Rightarrow> store \<Rightarrow> user option \<Rightarrow> id_param \<Rightarrow> json \<Rightarrow>
   (error + populated_cart option) \<times> store" where
  "addToCart rt st req_user productId quantity =
     (case req_user of
        None \<Rightarrow> (Inl AuthenticationRequired, st)
      | Some u \<Rightarrow>
          if userId u = [] then (Inl AuthenticationRequired, st)
          else if productId = Missing \<or> \<not> truthy quantity then (Inl FieldsRequired, st)
          else (case productId of
              Oid pid \<Rightarrow>
                if js_lt (ToNumber rt quantity) (Fin 1) then (Inl QuantityTooSmall, st)
                else (case findProduct st pid of
                    None \<Rightarrow> (Inl ProductNotFound, st)
                  | Some product \<Rightarrow>
                      (case find (\<lambda>c. c_userId c = userId u \<and> c_productId c = pid) (carts st) of
                         Some existingCartItem \<Rightarrow>
                           (case castNumber rt
                                   (plus_assign rt (c_quantity existingCartItem) quantity) of
                              Inl e \<Rightarrow> (Inl e, st)
                            | Inr q \<Rightarrow>
                                (let st1 = st\<lparr>carts :=
                                       update_first (\<lambda>c. c_id c = c_id existingCartItem)
                                         (\<lambda>c. c\<lparr>c_quantity := q\<rparr>) (carts st)\<rparr>
                                 in (Inr (findCartPopulated st1 (c_id existingCartItem)), st1)))
                       | None \<Rightarrow>
                           (case createCart rt st (userId u) pid quantity of
                              Inl e \<Rightarrow> (Inl e, st)
                            | Inr (cartItem, st1) \<Rightarrow>
                                (Inr (findCartPopulated st1 (c_id cartItem)), st1))))
            | _ \<Rightarrow> (Inl InvalidId, st)))"

definition clearCart :: "store \<Rightarrow> user option \<Rightarrow> (error + nat) \<times> store" where
  "clearCart st req_user =
     (case req_user of
        None \<Rightarrow> (Inl AuthenticationRequired, st)
      | Some u \<Rightarrow>
          if userId u = [] then (Inl AuthenticationRequired, st)
          else (case deleteMany (\<lambda>c. c_userId c = userId u) (carts st) of
              (deletedCount, kept) \<Rightarrow> (Inr deletedCount, st\<lparr>carts := kept\<rparr>)))"

section \<open>Orders controller\<close>

text \<open>
  models/orders \<^verbatim>\<open>createOrder\<close> (imported by the controller as \<^verbatim>\<open>createOrderEntry\<close>):
  the document is validated against the schema and saved; a validation failure is thrown.
\<close>

definition createOrderEntry :: "store \<Rightarrow> order \<Rightarrow> error + (order \<times> store)" where
  "createOrderEntry st orderData =
     (let ord = orderData\<lparr>o_id := next_oid st\<rparr>
      in if orderSchema ord
         then Inr (ord, st\<lparr>orders := orders st @ [ord], next_oid := Suc (next_oid st)\<rparr>)
         else Inl ValidationError)"

text \<open>
  \<^verbatim>\<open>inventory.save()\<close> of a document read before: validated against the schema, then the
  stored document with that \<^verbatim>\<open>_id\<close> gets the quantity of the document in memory.
\<close>

definition saveInventory :: "store \<Rightarrow> inventory \<Rightarrow> error + store" where
  "saveInventory st doc =
     (if inventorySchema doc
      then Inr (st\<lparr>inventories :=
             update_first (\<lambda>i. i_id i = i_id doc) (\<lambda>i. i\<lparr>i_quantity := i_quantity doc\<rparr>)
               (inventories st)\<rparr>)
      else Inl ValidationError)"

text \<open>
  The body of the loop of \<^verbatim>\<open>createOrder\<close> for a line whose product exists, in the two
  parts that its awaits separate. First the inventory document is read and compared with
  the quantity of the line (\<^verbatim>\<open>Inventory.findOne\<close> and the test after it).
\<close>

definition read_check :: "store \<Rightarrow> cart \<Rightarrow> product \<Rightarrow> error + inventory" where
  "read_check st cartItem product =
     (case find (\<lambda>i. i_productId i = p_id product) (inventories st) of
        None \<Rightarrow> Inl (InsufficientInventory (p_name product) (Fin 0) (c_quantity cartItem))
      | Some inventory \<Rightarrow>
          if js_lt (i_quantity inventory) (c_quantity cartItem)
          then Inl (InsufficientInventory (p_name product) (i_quantity inventory)
                      (c_quantity cartItem))
          else Inr inventory)"

text \<open>
  Then the order is created, the document read before is decremented in memory and
  saved, and the order is read back with its product (\<^verbatim>\<open>createOrderEntry\<close>,
  \<^verbatim>\<open>inventory.save\<close>, \<^verbatim>\<open>Order.findById\<close>). A thrown error ends the request with the
  store as it is at that moment.
\<close>

definition commit ::
  "store \<Rightarrow> string \<Rightarrow> cart \<Rightarrow> product \<Rightarrow> inventory \<Rightarrow>
   (error + populated_order option) \<times> store" where
  "commit st uid cartItem product inventory =
     (let totalPrice = js_mul (p_price product) (c_quantity cartItem);
          orderData = \<lparr>o_id = 0, o_userId = uid, o_productId = p_id product,
                       o_quantity = c_quantity cartItem, o_totalPrice = totalPrice,
                       o_status = ''pending''\<rparr>
      in case createOrderEntry st orderData of
           Inl e \<Rightarrow> (Inl e, st)
         | Inr (ord, st1) \<Rightarrow>
             (case saveInventory st1
                     (inventory\<lparr>i_quantity :=
                        js_sub (i_quantity inventory) (c_quantity cartItem)\<rparr>) of
                Inl e \<Rightarrow> (Inl e, st1)
              | Inr st2 \<Rightarrow> (Inr (findOrderPopulated st2 (o_id ord)), st2)))"

text \<open>
  The loop over the populated cart items, run without another request in between. A
  \<^verbatim>\<open>return\<close> inside the loop ends the request with the store as it is.
\<close>

fun order_lines ::
  "string \<Rightarrow> (cart \<times> product option) list \<Rightarrow> store \<Rightarrow> populated_order option list \<Rightarrow>
   (error + populated_order option list) \<times> store" where
  "order_lines uid [] st createdOrders = (Inr createdOrders, st)"
| "order_lines uid ((cartItem, None) # rest) st createdOrders =
     order_lines uid rest st createdOrders"
| "order_lines uid ((cartItem, Some product) # rest) st createdOrders =
     (case read_check st cartItem product of
        Inl e \<Rightarrow> (Inl e, st)
      | Inr inventory \<Rightarrow>
          (case commit st uid cartItem product inventory of
             (Inl e, st1) \<Rightarrow> (Inl e, st1)
           | (Inr populatedOrder, st2) \<Rightarrow>
               order_lines uid rest st2 (createdOrders @ [populatedOrder])))"

definition createOrder ::
  "store \<Rightarrow> user option \<Rightarrow> (error + populated_order option list) \<times> store" where
  "createOrder st req_user =
     (case req_user of
        None \<Rightarrow> (Inl AuthenticationRequired, st)
      | Some u \<Rightarrow>
          if userId u = [] then (Inl AuthenticationRequired, st)
          else
            (let cartItems = map (\<lambda>c. (c, findProduct st (c_productId c)))
                               (filter (\<lambda>c. c_userId c = userId u) (carts st))
             in if cartItems = [] then (Inl CartEmpty, st)
                else (case order_lines (userId u) cartItems st [] of
                    (Inl e, st1) \<Rightarrow> (Inl e, st1)
                  | (Inr createdOrders, st1) \<Rightarrow>
                      (Inr createdOrders,
                       st1\<lparr>carts := snd (deleteMany (\<lambda>c. c_userId c = userId u) (carts st1))\<rparr>))))"

text \<open>The list \<^verbatim>\<open>validStatuses\<close> of \<^verbatim>\<open>updateOrderStatus\<close>.\<close>

definition validStatuses :: "string list" where
  "validStatuses = [''pending'', ''processing'', ''shipped'', ''delivered'', ''cancelled'']"

text \<open>
  \<^verbatim>\<open>findByIdAndUpdate(id, { status }, { new: true, runValidators: true })\<close>: the update
  validator of the status path runs, then the first order with that id is rewritten and
  returned.
\<close>

definition updateOrderStatus ::
  "store \<Rightarrow> user option \<Rightarrow> id_param \<Rightarrow> string option \<Rightarrow> (error + populated_order) \<times> store" where
  "updateOrderStatus st req_user orderId status =
     (case req_user of
        None \<Rightarrow> (Inl AccessDenied, st)
      | Some u \<Rightarrow>
          if role u \<noteq> ''admin'' then (Inl AccessDenied, st)
          else (case orderId of
              Oid oi \<Rightarrow>
                (case status of
                   None \<Rightarrow> (Inl InvalidStatus, st)
                 | Some s \<Rightarrow>
                     if s = [] \<or> s \<notin> set validStatuses then (Inl InvalidStatus, st)
                     else if s \<notin> set statusEnum then (Inl ValidationError, st)
                     else (case find (\<lambda>ord. o_id ord = oi) (orders st) of
                         None \<Rightarrow> (Inl OrderNotFound, st)
                       | Some found \<Rightarrow>
                           (Inr (found\<lparr>o_status := s\<rparr>, findProduct st (o_productId found)),
                            st\<lparr>orders :=
                               update_first (\<lambda>ord. o_id ord = oi)
                                 (\<lambda>ord. ord\<lparr>o_status := s\<rparr>) (orders st)\<rparr>)))
            | _ \<Rightarrow> (Inl InvalidId, st)))"

section \<open>Inventory controller\<close>

text \<open>
  The body of \<^verbatim>\<open>PUT /inventory/:id\<close> is handed to \<^verbatim>\<open>findByIdAndUpdate\<close> as it
  arrives, so it is an update document. For the quantity it may hold nothing, a value to
  set (a top-level key or \<^verbatim>\<open>$set\<close>), or one of the operators \<^verbatim>\<open>$inc\<close>, \<^verbatim>\<open>$mul\<close>
  and \<^verbatim>\<open>$min\<close> with a Number.
\<close>

datatype quantity_update = Keep | SetTo json | IncBy number | MulBy number | MinWith number

record inventory_body =
  ib_productId :: id_param
  ib_quantity :: quantity_update

text \<open>
  The update validators of mongoose run for the paths that are set and for no other
  operator: a value to set must cast to a Number of at least 0.
\<close>

fun update_validators :: "runtime \<Rightarrow> quantity_update \<Rightarrow> bool" where
  "update_validators rt (SetTo v) =
     (case castNumber rt v of Inl e \<Rightarrow> False | Inr q \<Rightarrow> js_ge q (Fin 0))"
| "update_validators rt _ = True"

text \<open>What MongoDB writes to the quantity.\<close>

fun apply_quantity_update :: "runtime \<Rightarrow> quantity_update \<Rightarrow> number \<Rightarrow> number" where
  "apply_quantity_update rt Keep q = q"
| "apply_quantity_update rt (SetTo v) q = (case castNumber rt v of Inl e \<Rightarrow> q | Inr n \<Rightarrow> n)"
| "apply_quantity_update rt (IncBy d) q = js_add q d"
| "apply_quantity_update rt (MulBy d) q = js_mul q d"
| "apply_quantity_update rt (MinWith d) q = (if js_lt d q then d else q)"

definition apply_inventory_body :: "runtime \<Rightarrow> inventory_body \<Rightarrow> inventory \<Rightarrow> inventory" where
  "apply_inventory_body rt body d =
     d\<lparr>i_productId := (case ib_productId body of Oid pid \<Rightarrow> pid | _ \<Rightarrow> i_productId d),
       i_quantity := apply_quantity_update rt (ib_quantity body) (i_quantity d)\<rparr>"

text \<open>
  \<^verbatim>\<open>findByIdAndUpdate(id, req.body, { new: true, runValidators: true })\<close>, after the
  checks of the handler on the productId of the body; the unique index guards the new
  productId.
\<close>

definition updateInventory ::
  "runtime \<Rightarrow> store \<Rightarrow> user option \<Rightarrow> id_param \<Rightarrow> inventory_body \<Rightarrow>
   (error + populated_inventory) \<times> store" where
  "updateInventory rt st req_user invId body =
     (case req_user of
        None \<Rightarrow> (Inl AccessDenied, st)
      | Some u \<Rightarrow>
          if role u \<noteq> ''admin'' then (Inl AccessDenied, st)
          else (case invId of
              Oid ii \<Rightarrow>
                if ib_productId body = Malformed then (Inl InvalidId, st)
                else if (case ib_productId body of
                           Oid pid \<Rightarrow> findProduct st pid = None | _ \<Rightarrow> False)
                  then (Inl ProductNotFound, st)
                else if \<not> update_validators rt (ib_quantity body)
                  then (Inl ValidationError, st)
                else (case find (\<lambda>d. i_id d = ii) (inventories st) of
                    None \<Rightarrow> (Inl InventoryNotFound, st)
                  | Some found \<Rightarrow>
                      if list_ex (\<lambda>d. i_id d \<noteq> ii \<and>
                                      i_productId d = i_productId (apply_inventory_body rt body found))
                           (inventories st)
                      then (Inl DuplicateKey, st)
                      else
                        (let upd = apply_inventory_body rt body found
                         in (Inr (upd, findProduct st (i_productId upd)),
                             st\<lparr>inventories :=
                                update_first (\<lambda>d. i_id d = ii) (apply_inventory_body rt body)
                                  (inventories st)\<rparr>)))
            | _ \<Rightarrow> (Inl InvalidId, st)))"

text \<open>
  \<^verbatim>\<open>updateInventoryQuantity\<close>: the quantity of the body is tested against undefined,
  null and \<^verbatim>\<open>< 0\<close>, then set with the update validators on.
\<close>

definition updateInventoryQuantity ::
  "runtime \<Rightarrow> store \<Rightarrow> user option \<Rightarrow> id_param \<Rightarrow> json \<Rightarrow>
   (error + populated_inventory) \<times> store" where
  "updateInventoryQuantity rt st req_user productId quantity =
     (case req_user of
        None \<Rightarrow> (Inl AccessDenied, st)
      | Some u \<Rightarrow>
          if role u \<noteq> ''admin'' then (Inl AccessDenied, st)
          else (case productId of
              Oid pid \<Rightarrow>
                if quantity = JAbsent \<or> quantity = JNull then (Inl QuantityRequired, st)
                else if js_lt (ToNumber rt quantity) (Fin 0) then (Inl QuantityNegative, st)
                else (case findProduct st pid of
                    None \<Rightarrow> (Inl ProductNotFound, st)
                  | Some product \<Rightarrow>
                      if \<not> update_validators rt (SetTo quantity) then (Inl ValidationError, st)
                      else (case find (\<lambda>d. i_productId d = pid) (inventories st) of
                          None \<Rightarrow> (Inl InventoryNotFound, st)
                        | Some found \<Rightarrow>
                            (let upd = found\<lparr>i_quantity :=
                                   apply_quantity_update rt (SetTo quantity) (i_quantity found)\<rparr>
                             in (Inr (upd, findProduct st (i_productId upd)),
                                 st\<lparr>inventories :=
                                    update_first (\<lambda>d. i_productId d = pid)
                                      (\<lambda>d. d\<lparr>i_quantity :=
                                         apply_quantity_update rt (SetTo quantity) (i_quantity d)\<rparr>)
                                      (inventories st)\<rparr>))))
            | _ \<Rightarrow> (Inl InvalidId, st)))"

section \<open>Products controller\<close>

text \<open>
  The body of \<^verbatim>\<open>POST /products\<close> and \<^verbatim>\<open>PUT /products/:id\<close>, reduced to the two
  attributes of the product record.
\<close>

record product_body =
  pb_name :: "string option"
  pb_price :: "number option"

definition apply_product_body :: "product_body \<Rightarrow> product \<Rightarrow> product" where
  "apply_product_body body p =
     p\<lparr>p_name := (case pb_name body of Some n \<Rightarrow> n | None \<Rightarrow> p_name p),
       p_price := (case pb_price body of Some x \<Rightarrow> x | None \<Rightarrow> p_price p)\<rparr>"

definition createProduct :: "store \<Rightarrow> user option \<Rightarrow> product_body \<Rightarrow> (error + product) \<times> store" where
  "createProduct st req_user body =
     (case req_user of
        None \<Rightarrow> (Inl AccessDenied, st)
      | Some u \<Rightarrow>
          if role u \<noteq> ''admin'' then (Inl AccessDenied, st)
          else (case (pb_name body, pb_price body) of
              (Some n, Some x) \<Rightarrow>
                (let p = \<lparr>p_id = next_oid st, p_name = n, p_price = x\<rparr>
                 in if productSchema p
                    then (Inr p, st\<lparr>products := products st @ [p],
                                      next_oid := Suc (next_oid st)\<rparr>)
                    else (Inl ValidationError, st))
            | _ \<Rightarrow> (Inl ValidationError, st)))"

definition updateProduct ::
  "store \<Rightarrow> user option \<Rightarrow> id_param \<Rightarrow> product_body \<Rightarrow> (error + product) \<times> store" where
  "updateProduct st req_user prodId body =
     (case req_user of
        None \<Rightarrow> (Inl AccessDenied, st)
      | Some u \<Rightarrow>
          if role u \<noteq> ''admin'' then (Inl AccessDenied, st)
          else (case prodId of
              Oid pid \<Rightarrow>
                if (case pb_price body of Some x \<Rightarrow> \<not> js_ge x (Fin 0) | None \<Rightarrow> False)
                then (Inl ValidationError, st)
                else (case findProduct st pid of
                    None \<Rightarrow> (Inl ProductNotFound, st)
                  | Some found \<Rightarrow>
                      (Inr (apply_product_body body found),
                       st\<lparr>products :=
                          update_first (\<lambda>p. p_id p = pid) (apply_product_body body)
                            (products st)\<rparr>))
            | _ \<Rightarrow> (Inl InvalidId, st)))"

definition deleteProduct ::
  "store \<Rightarrow> user option \<Rightarrow> id_param \<Rightarrow> (error + unit) \<times> store" where
  "deleteProduct st req_user prodId =
     (case req_user of
        None \<Rightarrow> (Inl AccessDenied, st)
      | Some u \<Rightarrow>
          if role u \<noteq> ''admin'' then (Inl AccessDenied, st)
          else (case prodId of
              Oid pid \<Rightarrow>
                (case findProduct st pid of
                   None \<Rightarrow> (Inl ProductNotFound, st)
                 | Some found \<Rightarrow>
                     (Inr (), st\<lparr>products := delete_first (\<lambda>p. p_id p = pid) (products st)\<rparr>))
            | _ \<Rightarrow> (Inl InvalidId, st)))"

section \<open>Expected results\<close>

text \<open>The ids of the stored orders are below the counter: a new ObjectId is unused.\<close>

definition fresh_ids :: "store \<Rightarrow> bool" where
  "fresh_ids st = list_all (\<lambda>ord. o_id ord < next_oid st) (orders st)"

text \<open>The cart lines of a user as \<^verbatim>\<open>createOrder\<close> reads them, each with its product.\<close>

definition populated_cart_of :: "store \<Rightarrow> string \<Rightarrow> (cart \<times> product option) list" where
  "populated_cart_of st uid =
     map (\<lambda>c. (c, findProduct st (c_productId c))) (filter (\<lambda>c. c_userId c = uid) (carts st))"

text \<open>The surviving lines: those whose product still exists, in cart order.\<close>

fun surviving :: "(cart \<times> product option) list \<Rightarrow> (cart \<times> product) list" where
  "surviving [] = []"
| "surviving ((c, None) # rest) = surviving rest"
| "surviving ((c, Some p) # rest) = (c, p) # surviving rest"

text \<open>
  The orders that the specification expects of a successful placement, one per surviving
  line: the user, the product and quantity of the line, the price multiplied by the
  quantity (the \<^verbatim>\<open>*\<close> of Numbers), and the status pending. The ids are consecutive
  from \<open>n\<close>.
\<close>

fun expected_orders :: "string \<Rightarrow> oid \<Rightarrow> (cart \<times> product) list \<Rightarrow> order list" where
  "expected_orders uid n [] = []"
| "expected_orders uid n ((c, p) # rest) =
     \<lparr>o_id = n, o_userId = uid, o_productId = c_productId c, o_quantity = c_quantity c,
      o_totalPrice = js_mul (p_price p) (c_quantity c), o_status = ''pending''\<rparr>
     # expected_orders uid (Suc n) rest"

section \<open>Example stores\<close>

definition alice :: user where
  "alice = \<lparr>userId = ''alice'', role = ''user''\<rparr>"

definition bob :: user where
  "bob = \<lparr>userId = ''bob'', role = ''user''\<rparr>"

definition carol :: user where
  "carol = \<lparr>userId = ''carol'', role = ''user''\<rparr>"

definition admin :: user where
  "admin = \<lparr>userId = ''root'', role = ''admin''\<rparr>"

text \<open>
  Products A (price 50) and B (price 30), inventory 5 of A and 0 of B; the cart of alice
  holds 2 of A, then 1 of B.
\<close>

definition two_line_store :: store where
  "two_line_store =
     \<lparr>products = [\<lparr>p_id = 1, p_name = ''A'', p_price = Fin 50\<rparr>,
                  \<lparr>p_id = 2, p_name = ''B'', p_price = Fin 30\<rparr>],
      inventories = [\<lparr>i_id = 3, i_productId = 1, i_quantity = Fin 5\<rparr>,
                     \<lparr>i_id = 4, i_productId = 2, i_quantity = Fin 0\<rparr>],
      carts = [\<lparr>c_id = 5, c_userId = ''alice'', c_productId = 1, c_quantity = Fin 2\<rparr>,
               \<lparr>c_id = 6, c_userId = ''alice'', c_productId = 2, c_quantity = Fin 1\<rparr>],
      orders = [],
      next_oid = 7\<rparr>"

text \<open>
  Product C (price 19.99, as a double) with inventory 10; the cart of alice holds a line
  for a deleted product, then 3 of C; bob has a line too.
\<close>

definition one_line_store :: store where
  "one_line_store =
     \<lparr>products = [\<lparr>p_id = 1, p_name = ''C'', p_price = to_double (1999 / 100)\<rparr>],
      inventories = [\<lparr>i_id = 2, i_productId = 1, i_quantity = Fin 10\<rparr>],
      carts = [\<lparr>c_id = 3, c_userId = ''alice'', c_productId = 8, c_quantity = Fin 1\<rparr>,
               \<lparr>c_id = 4, c_userId = ''alice'', c_productId = 1, c_quantity = Fin 3\<rparr>,
               \<lparr>c_id = 5, c_userId = ''bob'', c_productId = 1, c_quantity = Fin 2\<rparr>],
      orders = [\<lparr>o_id = 0, o_userId = ''bob'', o_productId = 1, o_quantity = Fin 1,
                 o_totalPrice = to_double (1999 / 100), o_status = ''shipped''\<rparr>],
      next_oid = 6\<rparr>"

text \<open>
  Products C (price 19.99) and D (price 0.1); the cart of alice holds a line for a
  deleted product, then 3 of D, then 3 of C.
\<close>

definition mixed_cart_store :: store where
  "mixed_cart_store =
     \<lparr>products = [\<lparr>p_id = 1, p_name = ''C'', p_price = to_double (1999 / 100)\<rparr>,
                  \<lparr>p_id = 2, p_name = ''D'', p_price = to_double (1 / 10)\<rparr>],
      inventories = [\<lparr>i_id = 3, i_productId = 1, i_quantity = Fin 10\<rparr>,
                     \<lparr>i_id = 4, i_productId = 2, i_quantity = Fin 5\<rparr>],
      carts = [\<lparr>c_id = 5, c_userId = ''alice'', c_productId = 8, c_quantity = Fin 1\<rparr>,
               \<lparr>c_id = 6, c_userId = ''alice'', c_productId = 2, c_quantity = Fin 3\<rparr>,
               \<lparr>c_id = 7, c_userId = ''alice'', c_productId = 1, c_quantity = Fin 3\<rparr>,
               \<lparr>c_id = 8, c_userId = ''bob'', c_productId = 1, c_quantity = Fin 2\<rparr>],
      orders = [\<lparr>o_id = 0, o_userId = ''bob'', o_productId = 1, o_quantity = Fin 1,
                 o_totalPrice = to_double (1999 / 100), o_status = ''shipped''\<rparr>],
      next_oid = 9\<rparr>"

text \<open>The only line of alice's cart refers to product 9, which no longer exists.\<close>

definition stale_store :: store where
  "stale_store =
     \<lparr>products = [],
      inventories = [\<lparr>i_id = 2, i_productId = 9, i_quantity = Fin 4\<rparr>],
      carts = [\<lparr>c_id = 3, c_userId = ''alice'', c_productId = 9, c_quantity = Fin 1\<rparr>],
      orders = [],
      next_oid = 4\<rparr>"

text \<open>One unit of product P in stock; alice and bob each have 1 of P in the cart.\<close>

definition last_unit_store :: store where
  "last_unit_store =
     \<lparr>products = [\<lparr>p_id = 1, p_name = ''P'', p_price = Fin 10\<rparr>],
      inventories = [\<lparr>i_id = 2, i_productId = 1, i_quantity = Fin 1\<rparr>],
      carts = [\<lparr>c_id = 3, c_userId = ''alice'', c_productId = 1, c_quantity = Fin 1\<rparr>,
               \<lparr>c_id = 4, c_userId = ''bob'', c_productId = 1, c_quantity = Fin 1\<rparr>],
      orders = [],
      next_oid = 5\<rparr>"

text \<open>
  The two conversions of the runtime, given on the arguments that the cart example meets:
  \<^verbatim>\<open>String(3)\<close> is "3", \<^verbatim>\<open>Number("3e-5")\<close> is the double of 0.00003, and
  \<^verbatim>\<open>Number("e-5")\<close> is NaN. The example applies them to no other argument.
\<close>

definition example_runtime :: runtime where
  "example_runtime =
     \<lparr>StringToNumber = (\<lambda>s. if s = ''3e-5'' then to_double (3 / 100000) else NaN),
      NumberToString = (\<lambda>n. if n = Fin 3 then ''3'' else ''NaN'')\<rparr>"

section \<open>Lemmas on the collection primitives\<close>

lemma fresh_ids_iff: "fresh_ids st = (\<forall>ord \<in> set (orders st). o_id ord < next_oid st)"
  by (simp add: fresh_ids_def list_all_iff)

lemma deleteMany_snd: "snd (deleteMany P xs) = filter (\<lambda>x. \<not> P x) xs"
  by (induction xs) (auto split: prod.splits)

lemma deleteMany_fst: "fst (deleteMany P xs) = length (filter P xs)"
  by (induction xs) (auto split: prod.splits)

lemma deleteMany_eq: "deleteMany P xs = (length (filter P xs), filter (\<lambda>x. \<not> P x) xs)"
  by (simp add: prod_eq_iff deleteMany_fst deleteMany_snd)

lemma update_first_map:
  "(\<And>x. g (f x) = g x) \<Longrightarrow> map g (update_first P f xs) = map g xs"
  by (induction xs) auto

lemma update_first_filter:
  "(\<And>x. P x \<Longrightarrow> P (f x)) \<Longrightarrow>
   filter (\<lambda>x. \<not> P x) (update_first P f xs) = filter (\<lambda>x. \<not> P x) xs"
  by (induction xs) auto

lemma update_first_find:
  "find P xs = Some x \<Longrightarrow> P (f x) \<Longrightarrow> find P (update_first P f xs) = Some (f x)"
  by (induction xs) (auto split: if_splits)

lemma find_in_set: "find P xs = Some x \<Longrightarrow> x \<in> set xs \<and> P x"
  by (induction xs) (auto split: if_splits)

lemma find_fresh_last:
  "\<forall>x \<in> set xs. \<not> P x \<Longrightarrow> P y \<Longrightarrow> find P (xs @ [y]) = Some y"
  by (induction xs) auto

lemma findProduct_cong: "products st' = products st \<Longrightarrow> findProduct st' = findProduct st"
  by (simp add: findProduct_def fun_eq_iff)

section \<open>Lemmas on order placement\<close>

lemma createOrderEntry_Inr:
  assumes "createOrderEntry st d = Inr (ord, st1)"
  shows "ord = d\<lparr>o_id := next_oid st\<rparr>"
    "st1 = st\<lparr>orders := orders st @ [ord], next_oid := Suc (next_oid st)\<rparr>"
  using assms by (auto simp: createOrderEntry_def Let_def split: if_splits)

lemma saveInventory_Inr:
  assumes "saveInventory st d = Inr st2"
  shows "st2 = st\<lparr>inventories :=
           update_first (\<lambda>i. i_id i = i_id d) (\<lambda>i. i\<lparr>i_quantity := i_quantity d\<rparr>)
             (inventories st)\<rparr>"
  using assms by (auto simp: saveInventory_def split: if_splits)

lemma commit_Inr:
  assumes "commit st uid c p d = (Inr po, st2)"
  shows "\<exists>ord.
           ord = \<lparr>o_id = next_oid st, o_userId = uid, o_productId = p_id p,
                  o_quantity = c_quantity c, o_totalPrice = js_mul (p_price p) (c_quantity c),
                  o_status = ''pending''\<rparr> \<and>
           orders st2 = orders st @ [ord] \<and> next_oid st2 = Suc (next_oid st) \<and>
           products st2 = products st \<and> carts st2 = carts st \<and>
           po = findOrderPopulated st2 (next_oid st)"
proof -
  let ?data = "\<lparr>o_id = 0, o_userId = uid, o_productId = p_id p, o_quantity = c_quantity c,
                 o_totalPrice = js_mul (p_price p) (c_quantity c), o_status = ''pending''\<rparr>"
  from assms obtain ord st1 where
    ce: "createOrderEntry st ?data = Inr (ord, st1)" and
    sv: "saveInventory st1 (d\<lparr>i_quantity := js_sub (i_quantity d) (c_quantity c)\<rparr>) = Inr st2" and
    po: "po = findOrderPopulated st2 (o_id ord)"
    by (auto simp: commit_def Let_def split: sum.splits prod.splits)
  have ord: "ord = ?data\<lparr>o_id := next_oid st\<rparr>" using createOrderEntry_Inr(1)[OF ce] .
  have st2: "st2 = st\<lparr>orders := orders st @ [ord], next_oid := Suc (next_oid st),
                       inventories := update_first (\<lambda>i. i_id i = i_id d)
                         (\<lambda>i. i\<lparr>i_quantity := js_sub (i_quantity d) (c_quantity c)\<rparr>)
                         (inventories st)\<rparr>"
    using saveInventory_Inr[OF sv] createOrderEntry_Inr(2)[OF ce] by simp
  show ?thesis using ord st2 po by simp
qed

lemma order_lines_Some:
  assumes "order_lines uid ((c, Some p) # rest) st acc = (Inr res, st')"
  shows "\<exists>d po st2. commit st uid c p d = (Inr po, st2) \<and>
           order_lines uid rest st2 (acc @ [po]) = (Inr res, st')"
  using assms by (auto split: sum.splits prod.splits)

lemma order_lines_success:
  assumes "order_lines uid items st acc = (Inr res, st')"
    and "\<forall>x \<in> set items. \<forall>p. snd x = Some p \<longrightarrow> p_id p = c_productId (fst x)"
    and "fresh_ids st"
  shows "orders st' = orders st @ expected_orders uid (next_oid st) (surviving items) \<and>
         res = acc @ map (\<lambda>ord. Some (ord, findProduct st (o_productId ord)))
                       (expected_orders uid (next_oid st) (surviving items))"
  using assms
proof (induction items arbitrary: st acc)
  case Nil
  then show ?case by simp
next
  case (Cons x xs)
  obtain c po where x: "x = (c, po)" by (cases x)
  have items: "\<forall>x \<in> set xs. \<forall>p. snd x = Some p \<longrightarrow> p_id p = c_productId (fst x)"
    using Cons.prems(2) by simp
  show ?case
  proof (cases po)
    case None
    with x Cons.prems(1) have "order_lines uid xs st acc = (Inr res, st')" by simp
    from Cons.IH[OF this items Cons.prems(3)] show ?thesis using x None by simp
  next
    case (Some p)
    from Some x Cons.prems(1)
    have "order_lines uid ((c, Some p) # xs) st acc = (Inr res, st')" by (simp only:)
    from order_lines_Some[OF this] obtain d populated st2 where
      cm: "commit st uid c p d = (Inr populated, st2)" and
      rec: "order_lines uid xs st2 (acc @ [populated]) = (Inr res, st')"
      by blast
    have pid: "p_id p = c_productId c" using Cons.prems(2) x Some by simp
    define ord where "ord = \<lparr>o_id = next_oid st, o_userId = uid, o_productId = c_productId c,
                       o_quantity = c_quantity c,
                       o_totalPrice = js_mul (p_price p) (c_quantity c), o_status = ''pending''\<rparr>"
    from commit_Inr[OF cm] have
      st2: "orders st2 = orders st @ [ord]" "next_oid st2 = Suc (next_oid st)"
        "products st2 = products st" and
      pop0: "populated = findOrderPopulated st2 (next_oid st)"
      by (simp_all add: ord_def pid)
    have oid: "o_id ord = next_oid st" by (simp add: ord_def)
    have fresh2: "fresh_ids st2"
      using Cons.prems(3) by (auto simp: fresh_ids_iff st2 oid less_Suc_eq)
    have "find (\<lambda>r. o_id r = next_oid st) (orders st @ [ord]) = Some ord"
      using Cons.prems(3) by (intro find_fresh_last) (auto simp: fresh_ids_iff oid)
    then have pop: "populated = Some (ord, findProduct st (o_productId ord))"
      by (simp add: pop0 findOrderPopulated_def st2(1) findProduct_cong[OF st2(3)])
    have exp: "expected_orders uid (next_oid st) (surviving (x # xs)) =
               ord # expected_orders uid (Suc (next_oid st)) (surviving xs)"
      by (simp add: x Some ord_def)
    from Cons.IH[OF rec items fresh2] show ?thesis
      by (simp add: exp pop st2 findProduct_cong[OF st2(3)])
  qed
qed

section \<open>The claims\<close>

subsection \<open>Order placement\<close>

text \<open>
  C1. The claim: placing an order is all-or-nothing, so a line without enough stock fails
  the request with no inventory decremented, no order created and the cart unchanged.
  The handler returns from inside the loop instead. With two lines, 2 of A (5 in stock)
  and 1 of B (0 in stock), the request is answered with the insufficient-stock error for
  B, yet the order for A is stored and the inventory of A is down to 3.
\<close>

theorem createOrder_partial_commit:
  "createOrder two_line_store (Some alice) =
     (Inl (InsufficientInventory ''B'' (Fin 0) (Fin 1)),
      two_line_store
        \<lparr>inventories := [\<lparr>i_id = 3, i_productId = 1, i_quantity = Fin 3\<rparr>,
                         \<lparr>i_id = 4, i_productId = 2, i_quantity = Fin 0\<rparr>],
         orders := [\<lparr>o_id = 7, o_userId = ''alice'', o_productId = 1, o_quantity = Fin 2,
                     o_totalPrice = Fin 100, o_status = ''pending''\<rparr>],
         next_oid := 8\<rparr>)"
  by code_simp

text \<open>
  C2. The claim: requests that run concurrently never sell more than the stock, the check
  and the decrement of a line being one atomic update. In the handler they are a read and
  a later write of the document read. With one unit of P in stock and one unit in each of
  two carts, both requests read the quantity 1 before either writes: both checks pass,
  both orders are stored, two units are sold and the inventory ends at 0, with no
  insufficient-stock answer. Run one after the other, the second request is refused.
\<close>

theorem createOrder_interleaved_oversell:
  "populated_cart_of last_unit_store ''alice'' =
     [(\<lparr>c_id = 3, c_userId = ''alice'', c_productId = 1, c_quantity = Fin 1\<rparr>,
       Some \<lparr>p_id = 1, p_name = ''P'', p_price = Fin 10\<rparr>)] \<and>
   populated_cart_of last_unit_store ''bob'' =
     [(\<lparr>c_id = 4, c_userId = ''bob'', c_productId = 1, c_quantity = Fin 1\<rparr>,
       Some \<lparr>p_id = 1, p_name = ''P'', p_price = Fin 10\<rparr>)] \<and>
   read_check last_unit_store
       \<lparr>c_id = 3, c_userId = ''alice'', c_productId = 1, c_quantity = Fin 1\<rparr>
       \<lparr>p_id = 1, p_name = ''P'', p_price = Fin 10\<rparr> =
     Inr \<lparr>i_id = 2, i_productId = 1, i_quantity = Fin 1\<rparr> \<and>
   read_check last_unit_store
       \<lparr>c_id = 4, c_userId = ''bob'', c_productId = 1, c_quantity = Fin 1\<rparr>
       \<lparr>p_id = 1, p_name = ''P'', p_price = Fin 10\<rparr> =
     Inr \<lparr>i_id = 2, i_productId = 1, i_quantity = Fin 1\<rparr> \<and>
   commit last_unit_store ''alice''
       \<lparr>c_id = 3, c_userId = ''alice'', c_productId = 1, c_quantity = Fin 1\<rparr>
       \<lparr>p_id = 1, p_name = ''P'', p_price = Fin 10\<rparr>
       \<lparr>i_id = 2, i_productId = 1, i_quantity = Fin 1\<rparr> =
     (Inr (Some (\<lparr>o_id = 5, o_userId = ''alice'', o_productId = 1, o_quantity = Fin 1,
                   o_totalPrice = Fin 10, o_status = ''pending''\<rparr>,
                 Some \<lparr>p_id = 1, p_name = ''P'', p_price = Fin 10\<rparr>)),
      last_unit_store
        \<lparr>inventories := [\<lparr>i_id = 2, i_productId = 1, i_quantity = Fin 0\<rparr>],
         orders := [\<lparr>o_id = 5, o_userId = ''alice'', o_productId = 1, o_quantity = Fin 1,
                     o_totalPrice = Fin 10, o_status = ''pending''\<rparr>],
         next_oid := 6\<rparr>) \<and>
   commit
       (last_unit_store
          \<lparr>inventories := [\<lparr>i_id = 2, i_productId = 1, i_quantity = Fin 0\<rparr>],
           orders := [\<lparr>o_id = 5, o_userId = ''alice'', o_productId = 1, o_quantity = Fin 1,
                       o_totalPrice = Fin 10, o_status = ''pending''\<rparr>],
           next_oid := 6\<rparr>)
       ''bob''
       \<lparr>c_id = 4, c_userId = ''bob'', c_productId = 1, c_quantity = Fin 1\<rparr>
       \<lparr>p_id = 1, p_name = ''P'', p_price = Fin 10\<rparr>
       \<lparr>i_id = 2, i_productId = 1, i_quantity = Fin 1\<rparr> =
     (Inr (Some (\<lparr>o_id = 6, o_userId = ''bob'', o_productId = 1, o_quantity = Fin 1,
                   o_totalPrice = Fin 10, o_status = ''pending''\<rparr>,
                 Some \<lparr>p_id = 1, p_name = ''P'', p_price = Fin 10\<rparr>)),
      last_unit_store
        \<lparr>inventories := [\<lparr>i_id = 2, i_productId = 1, i_quantity = Fin 0\<rparr>],
         orders := [\<lparr>o_id = 5, o_userId = ''alice'', o_productId = 1, o_quantity = Fin 1,
                     o_totalPrice = Fin 10, o_status = ''pending''\<rparr>,
                    \<lparr>o_id = 6, o_userId = ''bob'', o_productId = 1, o_quantity = Fin 1,
                     o_totalPrice = Fin 10, o_status = ''pending''\<rparr>],
         next_oid := 7\<rparr>) \<and>
   fst (createOrder (snd (createOrder last_unit_store (Some alice))) (Some bob)) =
     Inl (InsufficientInventory ''P'' (Fin 0) (Fin 1))"
  by code_simp

text \<open>
  C3. For an authenticated user without cart lines the request fails with the empty-cart
  error and the store is left as it was: no order is created, no inventory is changed.
\<close>

theorem createOrder_empty_cart:
  assumes "userId u \<noteq> []"
    and "filter (\<lambda>c. c_userId c = userId u) (carts st) = []"
  shows "createOrder st (Some u) = (Inl CartEmpty, st)"
  using assms by (simp add: createOrder_def)

theorem createOrder_empty_cart_witness:
  "userId carol \<noteq> [] \<and>
   filter (\<lambda>c. c_userId c = userId carol) (carts one_line_store) = [] \<and>
   createOrder one_line_store (Some carol)
     = (Inl CartEmpty, one_line_store)"
  using createOrder_empty_cart[of "carol" one_line_store]
  by (simp add: one_line_store_def carol_def)

text \<open>
  C4. The claim: when every line of a non-empty cart refers to a deleted product, the
  request ends in the empty-cart failure. The handler tests the length of the cart before
  it skips the stale lines and does not test the orders it made: with one stale line it
  answers with success and an empty list of orders, and removes the line from the cart.
\<close>

theorem createOrder_all_stale_succeeds:
  "carts stale_store = [\<lparr>c_id = 3, c_userId = ''alice'', c_productId = 9, c_quantity = Fin 1\<rparr>] \<and>
   findProduct stale_store 9 = None \<and>
   fst (createOrder stale_store (Some alice)) \<noteq> Inl CartEmpty \<and>
   createOrder stale_store (Some alice) = (Inr [], stale_store\<lparr>carts := []\<rparr>)"
  by (simp add: createOrder_def stale_store_def alice_def findProduct_def Let_def)

text \<open>
  C5. A successful request appends to the orders exactly the expected orders, one per
  surviving cart line in cart order, each with the user, the product and quantity of the
  line, the price multiplied by the quantity and the status pending; the response lists
  these orders, in that order, each with its product.
\<close>

theorem createOrder_success:
  assumes "createOrder st (Some u) = (Inr res, st')"
    and "fresh_ids st"
  shows "orders st' = orders st @
           expected_orders (userId u) (next_oid st) (surviving (populated_cart_of st (userId u))) \<and>
         res = map (\<lambda>ord. Some (ord, findProduct st (o_productId ord)))
           (expected_orders (userId u) (next_oid st) (surviving (populated_cart_of st (userId u))))"
proof -
  let ?items = "populated_cart_of st (userId u)"
  from assms(1) obtain st1 where
    ol: "order_lines (userId u) ?items st [] = (Inr res, st1)" and
    st': "st' = st1\<lparr>carts := snd (deleteMany (\<lambda>c. c_userId c = userId u) (carts st1))\<rparr>"
    by (auto simp: createOrder_def populated_cart_of_def Let_def
        split: if_splits prod.splits sum.splits)
  have "p_id p = c_productId c" if "findProduct st (c_productId c) = Some p" for c p
    using find_in_set[OF that[unfolded findProduct_def]] by simp
  then have "\<forall>x \<in> set ?items. \<forall>p. snd x = Some p \<longrightarrow> p_id p = c_productId (fst x)"
    unfolding populated_cart_of_def by (simp, blast)
  from order_lines_success[OF ol this assms(2)] show ?thesis
    by (simp add: st')
qed

theorem createOrder_success_witness:
  "fresh_ids mixed_cart_store \<and>
   fst (createOrder mixed_cart_store (Some alice)) =
     Inr [Some (\<lparr>o_id = 9, o_userId = ''alice'', o_productId = 2, o_quantity = Fin 3,
                  o_totalPrice = Fin (1351079888211149 / 4503599627370496),
                  o_status = ''pending''\<rparr>,
                Some \<lparr>p_id = 2, p_name = ''D'', p_price = to_double (1 / 10)\<rparr>),
          Some (\<lparr>o_id = 10, o_userId = ''alice'', o_productId = 1, o_quantity = Fin 3,
                  o_totalPrice = Fin (2110006794167255 / 35184372088832),
                  o_status = ''pending''\<rparr>,
                Some \<lparr>p_id = 1, p_name = ''C'', p_price = to_double (1999 / 100)\<rparr>)] \<and>
   orders (snd (createOrder mixed_cart_store (Some alice))) =
     orders mixed_cart_store @
       [\<lparr>o_id = 9, o_userId = ''alice'', o_productId = 2, o_quantity = Fin 3,
         o_totalPrice = Fin (1351079888211149 / 4503599627370496), o_status = ''pending''\<rparr>,
        \<lparr>o_id = 10, o_userId = ''alice'', o_productId = 1, o_quantity = Fin 3,
         o_totalPrice = Fin (2110006794167255 / 35184372088832), o_status = ''pending''\<rparr>]"
proof -
  have fr: "fresh_ids mixed_cart_store"
    by code_simp
  have ev: "fst (createOrder mixed_cart_store (Some alice)) =
     Inr [Some (\<lparr>o_id = 9, o_userId = ''alice'', o_productId = 2, o_quantity = Fin 3,
                  o_totalPrice = Fin (1351079888211149 / 4503599627370496),
                  o_status = ''pending''\<rparr>,
                Some \<lparr>p_id = 2, p_name = ''D'', p_price = to_double (1 / 10)\<rparr>),
          Some (\<lparr>o_id = 10, o_userId = ''alice'', o_productId = 1, o_quantity = Fin 3,
                  o_totalPrice = Fin (2110006794167255 / 35184372088832),
                  o_status = ''pending''\<rparr>,
                Some \<lparr>p_id = 1, p_name = ''C'', p_price = to_double (1999 / 100)\<rparr>)]"
    by code_simp
  have ex: "expected_orders (userId alice) (next_oid mixed_cart_store)
              (surviving (populated_cart_of mixed_cart_store (userId alice))) =
       [\<lparr>o_id = 9, o_userId = ''alice'', o_productId = 2, o_quantity = Fin 3,
         o_totalPrice = Fin (1351079888211149 / 4503599627370496), o_status = ''pending''\<rparr>,
        \<lparr>o_id = 10, o_userId = ''alice'', o_productId = 1, o_quantity = Fin 3,
         o_totalPrice = Fin (2110006794167255 / 35184372088832), o_status = ''pending''\<rparr>]"
    by code_simp
  have eq: "createOrder mixed_cart_store (Some alice) =
       (Inr [Some (\<lparr>o_id = 9, o_userId = ''alice'', o_productId = 2, o_quantity = Fin 3,
                  o_totalPrice = Fin (1351079888211149 / 4503599627370496),
                  o_status = ''pending''\<rparr>,
                Some \<lparr>p_id = 2, p_name = ''D'', p_price = to_double (1 / 10)\<rparr>),
          Some (\<lparr>o_id = 10, o_userId = ''alice'', o_productId = 1, o_quantity = Fin 3,
                  o_totalPrice = Fin (2110006794167255 / 35184372088832),
                  o_status = ''pending''\<rparr>,
                Some \<lparr>p_id = 1, p_name = ''C'', p_price = to_double (1999 / 100)\<rparr>)],
        snd (createOrder mixed_cart_store (Some alice)))"
    using ev by (simp add: prod_eq_iff)
  from createOrder_success[OF eq fr] have
    "orders (snd (createOrder mixed_cart_store (Some alice))) =
       orders mixed_cart_store @ expected_orders (userId alice) (next_oid mixed_cart_store)
              (surviving (populated_cart_of mixed_cart_store (userId alice)))"
    by blast
  then show ?thesis unfolding ex using fr ev by blast
qed

subsection \<open>Inventory\<close>

text \<open>
  C6. The claim: every inventory quantity is a non-negative integer and no sequence of
  requests drives one below 0. The update by id hands the body to the database as the
  update document, and the validators do not run for \<^verbatim>\<open>$inc\<close>: an increment by -100
  takes the quantity 5 to -95. The quantity update accepts any Number that is not below
  0: 2.5 is stored.
\<close>

theorem inventory_update_below_zero:
  "updateInventory rt two_line_store (Some admin) (Oid 3)
       \<lparr>ib_productId = Missing, ib_quantity = IncBy (Fin (- 100))\<rparr> =
     (Inr (\<lparr>i_id = 3, i_productId = 1, i_quantity = Fin (- 95)\<rparr>,
           Some \<lparr>p_id = 1, p_name = ''A'', p_price = Fin 50\<rparr>),
      two_line_store
        \<lparr>inventories := [\<lparr>i_id = 3, i_productId = 1, i_quantity = Fin (- 95)\<rparr>,
                         \<lparr>i_id = 4, i_productId = 2, i_quantity = Fin 0\<rparr>]\<rparr>) \<and>
   js_lt (Fin (- 95)) (Fin 0) \<and>
   updateInventoryQuantity rt two_line_store (Some admin) (Oid 1) (JNum (Fin (5 / 2))) =
     (Inr (\<lparr>i_id = 3, i_productId = 1, i_quantity = Fin (5 / 2)\<rparr>,
           Some \<lparr>p_id = 1, p_name = ''A'', p_price = Fin 50\<rparr>),
      two_line_store
        \<lparr>inventories := [\<lparr>i_id = 3, i_productId = 1, i_quantity = Fin (5 / 2)\<rparr>,
                         \<lparr>i_id = 4, i_productId = 2, i_quantity = Fin 0\<rparr>]\<rparr>)"
proof -
  have sum: "js_add (Fin 5) (Fin (- 100)) = Fin (- 95)"
    by code_simp
  have 1: "updateInventory rt two_line_store (Some admin) (Oid 3)
       \<lparr>ib_productId = Missing, ib_quantity = IncBy (Fin (- 100))\<rparr> =
     (Inr (\<lparr>i_id = 3, i_productId = 1, i_quantity = Fin (- 95)\<rparr>,
           Some \<lparr>p_id = 1, p_name = ''A'', p_price = Fin 50\<rparr>),
      two_line_store
        \<lparr>inventories := [\<lparr>i_id = 3, i_productId = 1, i_quantity = Fin (- 95)\<rparr>,
                         \<lparr>i_id = 4, i_productId = 2, i_quantity = Fin 0\<rparr>]\<rparr>)"
    by (simp add: updateInventory_def admin_def two_line_store_def apply_inventory_body_def
        findProduct_def sum Let_def del: js_add.simps)
  have 2: "updateInventoryQuantity rt two_line_store (Some admin) (Oid 1) (JNum (Fin (5 / 2))) =
     (Inr (\<lparr>i_id = 3, i_productId = 1, i_quantity = Fin (5 / 2)\<rparr>,
           Some \<lparr>p_id = 1, p_name = ''A'', p_price = Fin 50\<rparr>),
      two_line_store
        \<lparr>inventories := [\<lparr>i_id = 3, i_productId = 1, i_quantity = Fin (5 / 2)\<rparr>,
                         \<lparr>i_id = 4, i_productId = 2, i_quantity = Fin 0\<rparr>]\<rparr>)"
    by (simp add: updateInventoryQuantity_def admin_def two_line_store_def findProduct_def
        js_ge_def Let_def)
  show ?thesis using 1 2 by simp
qed

subsection \<open>Orders\<close>

text \<open>
  C7. Creating, updating or deleting a product leaves every order record as it was, its
  totalPrice included; an order read back after a product update has the same fields.
\<close>

theorem product_changes_keep_orders:
  "orders (snd (updateProduct st req_user prodId body)) = orders st \<and>
   orders (snd (createProduct st req_user body)) = orders st \<and>
   orders (snd (deleteProduct st req_user prodId)) = orders st \<and>
   map_option fst (findOrderPopulated (snd (updateProduct st req_user prodId body)) i) =
     map_option fst (findOrderPopulated st i)"
proof -
  have u: "orders (snd (updateProduct st req_user prodId body)) = orders st"
    by (simp add: updateProduct_def split: option.split id_param.split)
  have c: "orders (snd (createProduct st req_user body)) = orders st"
    by (simp add: createProduct_def Let_def split: option.split)
  have d: "orders (snd (deleteProduct st req_user prodId)) = orders st"
    by (simp add: deleteProduct_def split: option.split id_param.split)
  have "map_option fst (findOrderPopulated st' i) = find (\<lambda>ord. o_id ord = i) (orders st')" for st'
    by (simp add: findOrderPopulated_def option.map_comp comp_def option.map_ident)
  with u c d show ?thesis by simp
qed

text \<open>
  C8. For an administrator and an order id: a status that is absent or outside pending,
  processing, shipped, delivered, cancelled is rejected as invalid and the store is
  unchanged. A status of the enumeration gives the not-found error and an unchanged store
  when no order has the id; otherwise the order with the id is returned and stored with
  the new status, every order keeps all its other fields, the orders with another id are
  untouched, and so are products, inventories and carts.
\<close>

theorem updateOrderStatus_contract:
  assumes "role u = ''admin''"
  shows
    "((status = None \<or>
       (\<exists>s. status = Some s \<and>
            s \<notin> {''pending'', ''processing'', ''shipped'', ''delivered'', ''cancelled''})) \<longrightarrow>
        updateOrderStatus st (Some u) (Oid oi) status = (Inl InvalidStatus, st)) \<and>
     (\<forall>s. status = Some s \<and>
          s \<in> {''pending'', ''processing'', ''shipped'', ''delivered'', ''cancelled''} \<longrightarrow>
        (case find (\<lambda>ord. o_id ord = oi) (orders st) of
           None \<Rightarrow> updateOrderStatus st (Some u) (Oid oi) status = (Inl OrderNotFound, st)
         | Some found \<Rightarrow>
             fst (updateOrderStatus st (Some u) (Oid oi) status) =
               Inr (found\<lparr>o_status := s\<rparr>, findProduct st (o_productId found)) \<and>
             find (\<lambda>ord. o_id ord = oi) (orders (snd (updateOrderStatus st (Some u) (Oid oi) status)))
               = Some (found\<lparr>o_status := s\<rparr>) \<and>
             map (\<lambda>ord. ord\<lparr>o_status := []\<rparr>)
                 (orders (snd (updateOrderStatus st (Some u) (Oid oi) status))) =
               map (\<lambda>ord. ord\<lparr>o_status := []\<rparr>) (orders st) \<and>
             filter (\<lambda>ord. o_id ord \<noteq> oi)
                 (orders (snd (updateOrderStatus st (Some u) (Oid oi) status))) =
               filter (\<lambda>ord. o_id ord \<noteq> oi) (orders st) \<and>
             products (snd (updateOrderStatus st (Some u) (Oid oi) status)) = products st \<and>
             inventories (snd (updateOrderStatus st (Some u) (Oid oi) status)) = inventories st \<and>
             carts (snd (updateOrderStatus st (Some u) (Oid oi) status)) = carts st))"
proof (intro conjI impI allI)
  assume "status = None \<or>
       (\<exists>s. status = Some s \<and>
            s \<notin> {''pending'', ''processing'', ''shipped'', ''delivered'', ''cancelled''})"
  then show "updateOrderStatus st (Some u) (Oid oi) status = (Inl InvalidStatus, st)"
    using assms by (auto simp: updateOrderStatus_def validStatuses_def)
next
  fix s
  assume a: "status = Some s \<and>
          s \<in> {''pending'', ''processing'', ''shipped'', ''delivered'', ''cancelled''}"
  then have s: "status = Some s" "s \<noteq> []" "s \<in> set validStatuses" "s \<in> set statusEnum"
    by (auto simp: validStatuses_def statusEnum_def)
  show "case find (\<lambda>ord. o_id ord = oi) (orders st) of
           None \<Rightarrow> updateOrderStatus st (Some u) (Oid oi) status = (Inl OrderNotFound, st)
         | Some found \<Rightarrow>
             fst (updateOrderStatus st (Some u) (Oid oi) status) =
               Inr (found\<lparr>o_status := s\<rparr>, findProduct st (o_productId found)) \<and>
             find (\<lambda>ord. o_id ord = oi) (orders (snd (updateOrderStatus st (Some u) (Oid oi) status)))
               = Some (found\<lparr>o_status := s\<rparr>) \<and>
             map (\<lambda>ord. ord\<lparr>o_status := []\<rparr>)
                 (orders (snd (updateOrderStatus st (Some u) (Oid oi) status))) =
               map (\<lambda>ord. ord\<lparr>o_status := []\<rparr>) (orders st) \<and>
             filter (\<lambda>ord. o_id ord \<noteq> oi)
                 (orders (snd (updateOrderStatus st (Some u) (Oid oi) status))) =
               filter (\<lambda>ord. o_id ord \<noteq> oi) (orders st) \<and>
             products (snd (updateOrderStatus st (Some u) (Oid oi) status)) = products st \<and>
             inventories (snd (updateOrderStatus st (Some u) (Oid oi) status)) = inventories st \<and>
             carts (snd (updateOrderStatus st (Some u) (Oid oi) status)) = carts st"
  proof (cases "find (\<lambda>ord. o_id ord = oi) (orders st)")
    case None
    then show ?thesis using assms s by (simp add: updateOrderStatus_def)
  next
    case (Some found)
    have r: "updateOrderStatus st (Some u) (Oid oi) status =
               (Inr (found\<lparr>o_status := s\<rparr>, findProduct st (o_productId found)),
                st\<lparr>orders := update_first (\<lambda>ord. o_id ord = oi)
                                 (\<lambda>ord. ord\<lparr>o_status := s\<rparr>) (orders st)\<rparr>)"
      using assms s Some by (simp add: updateOrderStatus_def)
    have f: "find (\<lambda>ord. o_id ord = oi)
               (update_first (\<lambda>ord. o_id ord = oi) (\<lambda>ord. ord\<lparr>o_status := s\<rparr>) (orders st))
             = Some (found\<lparr>o_status := s\<rparr>)"
      using Some find_in_set[OF Some] by (intro update_first_find) simp_all
    have m: "map (\<lambda>ord. ord\<lparr>o_status := []\<rparr>)
               (update_first (\<lambda>ord. o_id ord = oi) (\<lambda>ord. ord\<lparr>o_status := s\<rparr>) (orders st))
             = map (\<lambda>ord. ord\<lparr>o_status := []\<rparr>) (orders st)"
      by (intro update_first_map) simp
    have k: "filter (\<lambda>ord. \<not> o_id ord = oi)
               (update_first (\<lambda>ord. o_id ord = oi) (\<lambda>ord. ord\<lparr>o_status := s\<rparr>) (orders st))
             = filter (\<lambda>ord. \<not> o_id ord = oi) (orders st)"
      by (intro update_first_filter) simp
    show ?thesis using Some f m k by (simp add: r)
  qed
qed

theorem updateOrderStatus_contract_witness:
  "role admin = ''admin'' \<and>
   ''lost'' \<notin> {''pending'', ''processing'', ''shipped'', ''delivered'', ''cancelled''} \<and>
   updateOrderStatus one_line_store (Some admin) (Oid 0) (Some ''lost'') =
     (Inl InvalidStatus, one_line_store) \<and>
   updateOrderStatus one_line_store (Some admin) (Oid 0) None =
     (Inl InvalidStatus, one_line_store) \<and>
   ''delivered'' \<in> {''pending'', ''processing'', ''shipped'', ''delivered'', ''cancelled''} \<and>
   find (\<lambda>ord. o_id ord = 9) (orders one_line_store) = None \<and>
   updateOrderStatus one_line_store (Some admin) (Oid 9) (Some ''delivered'') =
     (Inl OrderNotFound, one_line_store) \<and>
   find (\<lambda>ord. o_id ord = 0) (orders one_line_store) =
     Some \<lparr>o_id = 0, o_userId = ''bob'', o_productId = 1, o_quantity = Fin 1,
            o_totalPrice = to_double (1999 / 100), o_status = ''shipped''\<rparr> \<and>
   updateOrderStatus one_line_store (Some admin) (Oid 0) (Some ''delivered'') =
     (Inr (\<lparr>o_id = 0, o_userId = ''bob'', o_productId = 1, o_quantity = Fin 1,
             o_totalPrice = to_double (1999 / 100), o_status = ''delivered''\<rparr>,
           Some \<lparr>p_id = 1, p_name = ''C'', p_price = to_double (1999 / 100)\<rparr>),
      one_line_store\<lparr>orders :=
        [\<lparr>o_id = 0, o_userId = ''bob'', o_productId = 1, o_quantity = Fin 1,
          o_totalPrice = to_double (1999 / 100), o_status = ''delivered''\<rparr>]\<rparr>)"
proof -
  have a: "role admin = ''admin''" by (simp add: admin_def)
  have ev: "updateOrderStatus one_line_store (Some admin) (Oid 0) (Some ''delivered'') =
     (Inr (\<lparr>o_id = 0, o_userId = ''bob'', o_productId = 1, o_quantity = Fin 1,
             o_totalPrice = to_double (1999 / 100), o_status = ''delivered''\<rparr>,
           Some \<lparr>p_id = 1, p_name = ''C'', p_price = to_double (1999 / 100)\<rparr>),
      one_line_store\<lparr>orders :=
        [\<lparr>o_id = 0, o_userId = ''bob'', o_productId = 1, o_quantity = Fin 1,
          o_totalPrice = to_double (1999 / 100), o_status = ''delivered''\<rparr>]\<rparr>)"
    by (simp add: updateOrderStatus_def admin_def one_line_store_def validStatuses_def
        statusEnum_def findProduct_def)
  from updateOrderStatus_contract[OF a, where status = "Some ''lost''" and st = one_line_store
        and oi = 0]
    updateOrderStatus_contract[OF a, where status = None and st = one_line_store and oi = 0]
    updateOrderStatus_contract[OF a, where status = "Some ''delivered''" and st = one_line_store
        and oi = 9]
    updateOrderStatus_contract[OF a, where status = "Some ''delivered''" and st = one_line_store
        and oi = 0]
    a ev
  show ?thesis by (simp add: one_line_store_def)
qed

subsection \<open>Cart\<close>

text \<open>
  C9. Clearing the cart of an authenticated user removes exactly the lines of that user
  and reports their number; a second call reports 0 and changes nothing, and so does a
  call for a user without lines.
\<close>

theorem clearCart_idempotent:
  assumes "userId u \<noteq> []"
  shows "clearCart st (Some u) =
           (Inr (length (filter (\<lambda>c. c_userId c = userId u) (carts st))),
            st\<lparr>carts := filter (\<lambda>c. c_userId c \<noteq> userId u) (carts st)\<rparr>) \<and>
         clearCart (snd (clearCart st (Some u))) (Some u) = (Inr 0, snd (clearCart st (Some u))) \<and>
         (filter (\<lambda>c. c_userId c = userId u) (carts st) = [] \<longrightarrow>
            clearCart st (Some u) = (Inr 0, st))"
proof -
  have 1: "clearCart st' (Some u) =
           (Inr (length (filter (\<lambda>c. c_userId c = userId u) (carts st'))),
            st'\<lparr>carts := filter (\<lambda>c. c_userId c \<noteq> userId u) (carts st')\<rparr>)" for st'
    using assms by (simp add: clearCart_def deleteMany_eq)
  have 2: "filter (\<lambda>c. c_userId c \<noteq> userId u) cs = cs"
    if "filter (\<lambda>c. c_userId c = userId u) cs = []" for cs :: "cart list"
    using that by (induction cs) (auto split: if_splits)
  show ?thesis
    by (simp add: 1 2)
qed

theorem clearCart_idempotent_witness:
  "userId alice \<noteq> [] \<and>
   clearCart one_line_store (Some alice) =
     (Inr 2, one_line_store
        \<lparr>carts := [\<lparr>c_id = 5, c_userId = ''bob'', c_productId = 1, c_quantity = Fin 2\<rparr>]\<rparr>) \<and>
   clearCart
       (one_line_store
          \<lparr>carts := [\<lparr>c_id = 5, c_userId = ''bob'', c_productId = 1, c_quantity = Fin 2\<rparr>]\<rparr>)
       (Some alice) =
     (Inr 0, one_line_store
        \<lparr>carts := [\<lparr>c_id = 5, c_userId = ''bob'', c_productId = 1, c_quantity = Fin 2\<rparr>]\<rparr>) \<and>
   userId carol \<noteq> [] \<and>
   filter (\<lambda>c. c_userId c = userId carol) (carts one_line_store) = [] \<and>
   clearCart one_line_store (Some carol) = (Inr 0, one_line_store)"
proof -
  have a: "userId alice \<noteq> []" and c: "userId carol \<noteq> []"
    by (simp_all add: alice_def carol_def)
  have fa: "filter (\<lambda>c. c_userId c = userId alice) (carts one_line_store) =
      [\<lparr>c_id = 3, c_userId = ''alice'', c_productId = 8, c_quantity = Fin 1\<rparr>,
       \<lparr>c_id = 4, c_userId = ''alice'', c_productId = 1, c_quantity = Fin 3\<rparr>]"
    and fb: "filter (\<lambda>c. c_userId c \<noteq> userId alice) (carts one_line_store) =
      [\<lparr>c_id = 5, c_userId = ''bob'', c_productId = 1, c_quantity = Fin 2\<rparr>]"
    and fc: "filter (\<lambda>c. c_userId c = userId carol) (carts one_line_store) = []"
    by (simp_all add: alice_def carol_def one_line_store_def)
  note alice_clear = clearCart_idempotent[OF a, of one_line_store, unfolded fa fb]
  note carol_clear = clearCart_idempotent[OF c, of one_line_store]
  have 1: "clearCart one_line_store (Some alice) =
     (Inr 2, one_line_store
        \<lparr>carts := [\<lparr>c_id = 5, c_userId = ''bob'', c_productId = 1, c_quantity = Fin 2\<rparr>]\<rparr>)"
    using alice_clear by simp
  have 2: "clearCart (snd (clearCart one_line_store (Some alice))) (Some alice) =
     (Inr 0, snd (clearCart one_line_store (Some alice)))"
    using alice_clear by blast
  have 3: "clearCart one_line_store (Some carol) = (Inr 0, one_line_store)"
    using carol_clear fc by blast
  from 2 show ?thesis unfolding 1 snd_conv using a c fc 1 3 by simp
qed

text \<open>
  C10. The claim: every cart line written through the cart interface has a quantity of
  at least 1. addToCart tests the quantity of the body as it arrives. The string "e-5"
  is not empty and, being no number, is not below 1; added to the quantity 3 of the
  existing line it gives the string "3e-5", which the Number path casts: the line is
  stored with the quantity 0.00003.
\<close>

theorem addToCart_string_quantity:
  assumes "StringToNumber rt ''e-5'' = NaN"
    and "NumberToString rt (Fin 3) = ''3''"
    and "StringToNumber rt ''3e-5'' = Fin (8854437155380585 / 295147905179352825856)"
  shows "addToCart rt one_line_store (Some alice) (Oid 1) (JStr ''e-5'') =
     (Inr (Some (\<lparr>c_id = 4, c_userId = ''alice'', c_productId = 1,
                   c_quantity = Fin (8854437155380585 / 295147905179352825856)\<rparr>,
                 Some \<lparr>p_id = 1, p_name = ''C'', p_price = to_double (1999 / 100)\<rparr>)),
      one_line_store
        \<lparr>carts := [\<lparr>c_id = 3, c_userId = ''alice'', c_productId = 8, c_quantity = Fin 1\<rparr>,
                   \<lparr>c_id = 4, c_userId = ''alice'', c_productId = 1,
                     c_quantity = Fin (8854437155380585 / 295147905179352825856)\<rparr>,
                   \<lparr>c_id = 5, c_userId = ''bob'', c_productId = 1, c_quantity = Fin 2\<rparr>]\<rparr>) \<and>
   js_lt (Fin (8854437155380585 / 295147905179352825856)) (Fin 1)"
  using assms
  by (simp add: addToCart_def alice_def one_line_store_def findProduct_def findCartPopulated_def
      Let_def)

theorem addToCart_string_quantity_witness:
  "StringToNumber example_runtime ''e-5'' = NaN \<and>
   NumberToString example_runtime (Fin 3) = ''3'' \<and>
   StringToNumber example_runtime ''3e-5'' = Fin (8854437155380585 / 295147905179352825856) \<and>
   to_double (3 / 100000) = Fin (8854437155380585 / 295147905179352825856) \<and>
   addToCart example_runtime one_line_store (Some alice) (Oid 1) (JStr ''e-5'') =
     (Inr (Some (\<lparr>c_id = 4, c_userId = ''alice'', c_productId = 1,
                   c_quantity = Fin (8854437155380585 / 295147905179352825856)\<rparr>,
                 Some \<lparr>p_id = 1, p_name = ''C'', p_price = to_double (1999 / 100)\<rparr>)),
      one_line_store
        \<lparr>carts := [\<lparr>c_id = 3, c_userId = ''alice'', c_productId = 8, c_quantity = Fin 1\<rparr>,
                   \<lparr>c_id = 4, c_userId = ''alice'', c_productId = 1,
                     c_quantity = Fin (8854437155380585 / 295147905179352825856)\<rparr>,
                   \<lparr>c_id = 5, c_userId = ''bob'', c_productId = 1, c_quantity = Fin 2\<rparr>]\<rparr>)"
proof -
  have d: "to_double (3 / 100000) = Fin (8854437155380585 / 295147905179352825856)"
    by code_simp
  have a: "StringToNumber example_runtime ''e-5'' = NaN"
    and b: "NumberToString example_runtime (Fin 3) = ''3''"
    and c: "StringToNumber example_runtime ''3e-5'' =
              Fin (8854437155380585 / 295147905179352825856)"
    by (simp_all add: example_runtime_def d)
  from addToCart_string_quantity[OF a b c] a b c d show ?thesis by blast
qed

end
